theory Spec2Isabelle
  imports Main
begin

section \<open>Values of the front end\<close>

text \<open>
  Modelled from the spec: the node classes under \<^verbatim>\<open>ast/\<close> (all but
  \<^verbatim>\<open>break-statement.js\<close>) and the three type singletons of
  \<^verbatim>\<open>semantics/builtins\<close> are not among the sources; each class is taken to store its
  constructor arguments in the fields the data model lists, in that order. The other
  constructors are the JavaScript values the builders handle: \<^verbatim>\<open>undefined\<close>,
  \<^verbatim>\<open>null\<close>, strings and arrays. A string is a list of characters, each standing for
  one code unit. The type \<open>'n\<close> is the type of JavaScript numbers; the builders never
  compute with a number, they only store the one that \<^verbatim>\<open>+text\<close> yields.
\<close>

datatype 'n jsval =
    Undefined
  | Null
  | Str string
  | Arr "'n jsval list"
  | Program "'n jsval"
  | WhileStatement "'n jsval" "'n jsval"
  | IfStatement "'n jsval" "'n jsval" "'n jsval"
  | FromStatement "'n jsval" "'n jsval" "'n jsval" "'n jsval"
  | BreakStatement
  | ReturnStatement "'n jsval"
  | FunctionDeclaration "'n jsval" "'n jsval" "'n jsval" "'n jsval"
  | VariableDeclaration "'n jsval" "'n jsval" "'n jsval"
  | AssignmentStatement "'n jsval" "'n jsval"
  | BinaryExpression "'n jsval" "'n jsval" "'n jsval"
  | UnaryExpression "'n jsval" "'n jsval"
  | TernaryExpression "'n jsval" "'n jsval" "'n jsval"
  | ListType "'n jsval"
  | ListExpression "'n jsval"
  | SetType "'n jsval"
  | SetExpression "'n jsval"
  | DictType "'n jsval" "'n jsval"
  | DictionaryExpression "'n jsval"
  | KeyValueExpression "'n jsval" "'n jsval"
  | Call "'n jsval" "'n jsval"
  | SubscriptedExpression "'n jsval" "'n jsval"
  | IdentifierExpression "'n jsval"
  | Parameter "'n jsval" "'n jsval" "'n jsval"
  | Argument "'n jsval"
  | BooleanLiteral bool
  | NumericLiteral 'n
  | StringLiteral string
  | IdDeclaration "'n jsval"
  | NumType
  | StringType
  | BooleanType

text \<open>
  What a \<^verbatim>\<open>throw\<close> carries. \<open>Error\<close> is \<^verbatim>\<open>new Error(message)\<close>;
  \<open>TypeError\<close> is the engine's own error on reading a property of
  \<^verbatim>\<open>null\<close>/\<^verbatim>\<open>undefined\<close> or spreading a value that is not iterable (its
  wording differs between engines and is left out); \<open>MissingSemanticAction\<close> is the
  parsing library's error for a rule with no entry in the table and more or fewer than
  one child. \<open>ArityMismatch\<close> is no JavaScript error: the library checks every action's
  parameter count against the grammar when the table is installed, so an action only
  ever sees its own number of children, and the model answers any other number with
  this value.
\<close>

datatype error =
    Error string
  | TypeError
  | MissingSemanticAction string
  | ArityMismatch string

type_synonym 'n result = "error + 'n jsval"

section \<open>The break statement's analysis\<close>

text \<open>
  Modelled from the spec: the Context class is not among the sources. A context owns
  its bindings, refers to its parent scope, and carries the two flags. The parent is
  part of the value, so that an unchanged context means an unchanged scope chain.
\<close>

datatype 'n Context = Context
  (declarations: "(string \<times> 'n jsval) list")
  (parent: "'n Context option")
  (inLoop: bool)
  (enclosingFunctionReturnType: "'n jsval option")

text \<open>
  \<^verbatim>\<open>analyze(context) { if (!context.inLoop) { throw new Error(...) } }\<close>.
  The context is a mutable object handed over by reference, so the model returns it
  next to the outcome: \<open>Inl\<close> the thrown error, \<open>Inr\<close> the returned value (a
  method that falls off its end returns \<^verbatim>\<open>undefined\<close>).
\<close>

definition analyze :: "'n Context \<Rightarrow> 'n result \<times> 'n Context" where
  "analyze context =
     (if \<not> inLoop context then (Inl (Error ''Break Statement out of Loop''), context)
      else (Inr Undefined, context))"

section \<open>The concrete syntax tree\<close>

text \<open>
  The grammar matcher is a library and the grammar file is not among the sources, so
  the tree it hands to the builders is data here. A node is a rule application (the
  rule's name, the sub-matches, the matched text), a terminal (its text), or an
  iteration node, which the matcher makes for each operand of \<^verbatim>\<open>*\<close>,
  \<^verbatim>\<open>+\<close> and \<^verbatim>\<open>?\<close> and which holds one child per repetition.
\<close>

datatype node =
    Nonterminal string "node list" string
  | Terminal string
  | Iteration "node list" string

text \<open>
  What a semantic action receives for each sub-match: a wrapper that offers the
  matched text and the \<^verbatim>\<open>ast\<close> operation. The field \<open>ast\<close> holds the outcome
  that calling \<^verbatim>\<open>.ast()\<close> has; an action that never calls it never looks at it.
\<close>

record 'n wrapper =
  sourceString :: string
  ast :: "'n result"

text \<open>Sequencing of calls that may throw: the first error ends the evaluation.\<close>

fun andThen :: "error + 'a \<Rightarrow> ('a \<Rightarrow> error + 'b) \<Rightarrow> error + 'b" where
  "andThen (Inl e) f = Inl e"
| "andThen (Inr v) f = f v"

text \<open>
  \<^verbatim>\<open>children.map(c => c.ast())\<close>, the library's action for an iteration node: the
  children are visited from left to right.
\<close>

fun collect :: "'n result list \<Rightarrow> error + 'n jsval list" where
  "collect [] = Inr []"
| "collect (r # rs) = andThen r (\<lambda>v. andThen (collect rs) (\<lambda>vs. Inr (v # vs)))"

text \<open>
  The spread \<^verbatim>\<open>...a\<close> inside an array literal: the elements of an array, the
  characters of a string, and a TypeError for the values that are not iterable.
\<close>

fun spread :: "'n jsval \<Rightarrow> error + 'n jsval list" where
  "spread (Arr xs) = Inr xs"
| "spread (Str s) = Inr (map (\<lambda>c. Str [c]) s)"
| "spread _ = Inl TypeError"

section \<open>The builders\<close>

text \<open>
  \<^verbatim>\<open>function arrayToNullable(a) { return a.length === 0 ? null : a[0]; }\<close>.
  On an array and on a string this is the source as written. Reading \<^verbatim>\<open>length\<close>
  of \<^verbatim>\<open>null\<close> or \<^verbatim>\<open>undefined\<close> throws; any other value of the model has no
  \<^verbatim>\<open>length\<close> and no property \<^verbatim>\<open>0\<close>, so the comparison fails and the read
  yields \<^verbatim>\<open>undefined\<close>.
\<close>

fun arrayToNullable :: "'n jsval \<Rightarrow> 'n result" where
  "arrayToNullable (Arr []) = Inr Null"
| "arrayToNullable (Arr (x # xs)) = Inr x"
| "arrayToNullable (Str []) = Inr Null"
| "arrayToNullable (Str (c # cs)) = Inr (Str [c])"
| "arrayToNullable Null = Inl TypeError"
| "arrayToNullable Undefined = Inl TypeError"
| "arrayToNullable _ = Inr Undefined"

text \<open>
  The entries of the table given to \<^verbatim>\<open>addOperation("ast", ...)\<close>, one function
  each, in the order of the source. An entry takes the wrappers of the rule's
  sub-matches; the entries that read \<^verbatim>\<open>this.sourceString\<close> take that text first.
  Calls of \<^verbatim>\<open>.ast()\<close> are sequenced in the order in which JavaScript evaluates
  them. Where the source's name is taken by a node class or by a constant of the
  library, the entry's name ends in \<open>_rule\<close>.
\<close>

fun Program_rule :: "'n wrapper list \<Rightarrow> 'n result" where
  "Program_rule [_, body, _] = andThen (ast body) (\<lambda>b. Inr (Program b))"
| "Program_rule _ = Inl (ArityMismatch ''Program'')"

fun Stmt_simple :: "'n wrapper list \<Rightarrow> 'n result" where
  "Stmt_simple [statement, _] = ast statement"
| "Stmt_simple _ = Inl (ArityMismatch ''Stmt_simple'')"

fun Stmt_while :: "'n wrapper list \<Rightarrow> 'n result" where
  "Stmt_while [_, test, block] =
     andThen (ast test) (\<lambda>t. andThen (ast block) (\<lambda>b. Inr (WhileStatement t b)))"
| "Stmt_while _ = Inl (ArityMismatch ''Stmt_while'')"

fun Stmt_if :: "'n wrapper list \<Rightarrow> 'n result" where
  "Stmt_if [_, firstTest, firstBlock, _, moreTests, moreBlocks, _, lastBlock] =
     andThen (ast firstTest) (\<lambda>t.
     andThen (andThen (ast moreTests) spread) (\<lambda>ts.
     andThen (ast firstBlock) (\<lambda>b.
     andThen (andThen (ast moreBlocks) spread) (\<lambda>bs.
     andThen (andThen (ast lastBlock) arrayToNullable) (\<lambda>alternate.
     Inr (IfStatement (Arr (t # ts)) (Arr (b # bs)) alternate))))))"
| "Stmt_if _ = Inl (ArityMismatch ''Stmt_if'')"

fun Stmt_loop :: "'n wrapper list \<Rightarrow> 'n result" where
  "Stmt_loop [_, id', _, firstTest, _, secondTest, _, increments, Block] =
     andThen (ast firstTest) (\<lambda>t1.
     andThen (ast secondTest) (\<lambda>t2.
     andThen (ast increments) (\<lambda>incs.
     andThen (ast Block) (\<lambda>body.
     Inr (FromStatement (Str (sourceString id')) (Arr [t1, t2]) incs body)))))"
| "Stmt_loop _ = Inl (ArityMismatch ''Stmt_loop'')"

fun Stmt_ternary :: "'n wrapper list \<Rightarrow> 'n result" where
  "Stmt_ternary [trueTest, _, test, _, falseTest] =
     andThen (ast test) (\<lambda>t.
     andThen (ast trueTest) (\<lambda>a.
     andThen (ast falseTest) (\<lambda>b.
     Inr (TernaryExpression t a b))))"
| "Stmt_ternary _ = Inl (ArityMismatch ''Stmt_ternary'')"

fun Stmt_function :: "'n wrapper list \<Rightarrow> 'n result" where
  "Stmt_function [type, id', _, params, _, block] =
     andThen (ast type) (\<lambda>t.
     andThen (ast id') (\<lambda>i.
     andThen (ast params) (\<lambda>ps.
     andThen (ast block) (\<lambda>b.
     Inr (FunctionDeclaration t i ps b)))))"
| "Stmt_function _ = Inl (ArityMismatch ''Stmt_function'')"

fun SimpleStmt_vardecl :: "'n wrapper list \<Rightarrow> 'n result" where
  "SimpleStmt_vardecl [t, v, _, e] =
     andThen (ast t) (\<lambda>t'. andThen (ast v) (\<lambda>v'. andThen (ast e) (\<lambda>e'.
     Inr (VariableDeclaration t' v' e'))))"
| "SimpleStmt_vardecl _ = Inl (ArityMismatch ''SimpleStmt_vardecl'')"

fun SimpleStmt_assign :: "'n wrapper list \<Rightarrow> 'n result" where
  "SimpleStmt_assign [v, _, e] =
     andThen (ast v) (\<lambda>v'. andThen (ast e) (\<lambda>e'. Inr (AssignmentStatement v' e')))"
| "SimpleStmt_assign _ = Inl (ArityMismatch ''SimpleStmt_assign'')"

fun SimpleStmt_break :: "'n wrapper list \<Rightarrow> 'n result" where
  "SimpleStmt_break [_] = Inr BreakStatement"
| "SimpleStmt_break _ = Inl (ArityMismatch ''SimpleStmt_break'')"

fun SimpleStmt_return :: "'n wrapper list \<Rightarrow> 'n result" where
  "SimpleStmt_return [_, e] =
     andThen (andThen (ast e) arrayToNullable) (\<lambda>v. Inr (ReturnStatement v))"
| "SimpleStmt_return _ = Inl (ArityMismatch ''SimpleStmt_return'')"

fun Block_small :: "'n wrapper list \<Rightarrow> 'n result" where
  "Block_small [_, statement, _] = andThen (ast statement) (\<lambda>s. Inr (Arr [s]))"
| "Block_small _ = Inl (ArityMismatch ''Block_small'')"

fun Block_large :: "'n wrapper list \<Rightarrow> 'n result" where
  "Block_large [_, _, _, statements, _] = ast statements"
| "Block_large _ = Inl (ArityMismatch ''Block_large'')"

fun Exp_or :: "'n wrapper list \<Rightarrow> 'n result" where
  "Exp_or [left, op, right] =
     andThen (ast op) (\<lambda>o'. andThen (ast left) (\<lambda>l. andThen (ast right) (\<lambda>r.
     Inr (BinaryExpression o' l r))))"
| "Exp_or _ = Inl (ArityMismatch ''Exp_or'')"

fun Exp_and :: "'n wrapper list \<Rightarrow> 'n result" where
  "Exp_and [left, op, right] =
     andThen (ast op) (\<lambda>o'. andThen (ast left) (\<lambda>l. andThen (ast right) (\<lambda>r.
     Inr (BinaryExpression o' l r))))"
| "Exp_and _ = Inl (ArityMismatch ''Exp_and'')"

fun Exp1_binary :: "'n wrapper list \<Rightarrow> 'n result" where
  "Exp1_binary [left, op, right] =
     andThen (ast op) (\<lambda>o'. andThen (ast left) (\<lambda>l. andThen (ast right) (\<lambda>r.
     Inr (BinaryExpression o' l r))))"
| "Exp1_binary _ = Inl (ArityMismatch ''Exp1_binary'')"

fun Exp2_binary :: "'n wrapper list \<Rightarrow> 'n result" where
  "Exp2_binary [left, op, right] =
     andThen (ast op) (\<lambda>o'. andThen (ast left) (\<lambda>l. andThen (ast right) (\<lambda>r.
     Inr (BinaryExpression o' l r))))"
| "Exp2_binary _ = Inl (ArityMismatch ''Exp2_binary'')"

fun Exp3_binary :: "'n wrapper list \<Rightarrow> 'n result" where
  "Exp3_binary [left, op, right] =
     andThen (ast op) (\<lambda>o'. andThen (ast left) (\<lambda>l. andThen (ast right) (\<lambda>r.
     Inr (BinaryExpression o' l r))))"
| "Exp3_binary _ = Inl (ArityMismatch ''Exp3_binary'')"

fun Exp4_unary :: "'n wrapper list \<Rightarrow> 'n result" where
  "Exp4_unary [op, operand] =
     andThen (ast op) (\<lambda>o'. andThen (ast operand) (\<lambda>x. Inr (UnaryExpression o' x)))"
| "Exp4_unary _ = Inl (ArityMismatch ''Exp4_unary'')"

fun Exp5_parens :: "'n wrapper list \<Rightarrow> 'n result" where
  "Exp5_parens [_, expression, _] = ast expression"
| "Exp5_parens _ = Inl (ArityMismatch ''Exp5_parens'')"

fun Exp5_list :: "'n wrapper list \<Rightarrow> 'n result" where
  "Exp5_list [_, expressions, _] = andThen (ast expressions) (\<lambda>es. Inr (ListExpression es))"
| "Exp5_list _ = Inl (ArityMismatch ''Exp5_list'')"

fun Exp5_set :: "'n wrapper list \<Rightarrow> 'n result" where
  "Exp5_set [_, _, expressions, _] = andThen (ast expressions) (\<lambda>es. Inr (SetExpression es))"
| "Exp5_set _ = Inl (ArityMismatch ''Exp5_set'')"

fun Exp5_dict :: "'n wrapper list \<Rightarrow> 'n result" where
  "Exp5_dict [_, expressions, _] =
     andThen (ast expressions) (\<lambda>es. Inr (DictionaryExpression es))"
| "Exp5_dict _ = Inl (ArityMismatch ''Exp5_dict'')"

fun KeyValue :: "'n wrapper list \<Rightarrow> 'n result" where
  "KeyValue [id', _, exp] =
     andThen (ast id') (\<lambda>k. andThen (ast exp) (\<lambda>v. Inr (KeyValueExpression k v)))"
| "KeyValue _ = Inl (ArityMismatch ''KeyValue'')"

fun Call_rule :: "'n wrapper list \<Rightarrow> 'n result" where
  "Call_rule [callee, _, expressions, _] =
     andThen (ast callee) (\<lambda>c. andThen (ast expressions) (\<lambda>es. Inr (Call c es)))"
| "Call_rule _ = Inl (ArityMismatch ''Call'')"

fun VarExp_subscripted :: "'n wrapper list \<Rightarrow> 'n result" where
  "VarExp_subscripted [v, _, e, _] =
     andThen (ast v) (\<lambda>v'. andThen (ast e) (\<lambda>e'. Inr (SubscriptedExpression v' e')))"
| "VarExp_subscripted _ = Inl (ArityMismatch ''VarExp_subscripted'')"

fun VarExp_simple :: "'n wrapper list \<Rightarrow> 'n result" where
  "VarExp_simple [id'] = andThen (ast id') (\<lambda>i. Inr (IdentifierExpression i))"
| "VarExp_simple _ = Inl (ArityMismatch ''VarExp_simple'')"

fun Param :: "'n wrapper list \<Rightarrow> 'n result" where
  "Param [type, id', _, exp] =
     andThen (ast type) (\<lambda>t.
     andThen (ast id') (\<lambda>i.
     andThen (andThen (ast exp) arrayToNullable) (\<lambda>d.
     Inr (Parameter t i d))))"
| "Param _ = Inl (ArityMismatch ''Param'')"

fun Arg :: "'n wrapper list \<Rightarrow> 'n result" where
  "Arg [exp] = andThen (ast exp) (\<lambda>e. Inr (Argument e))"
| "Arg _ = Inl (ArityMismatch ''Arg'')"

fun DeclId :: "'n wrapper list \<Rightarrow> 'n result" where
  "DeclId [id'] = andThen (ast id') (\<lambda>i. Inr (IdDeclaration i))"
| "DeclId _ = Inl (ArityMismatch ''DeclId'')"

fun NumType_rule :: "'n wrapper list \<Rightarrow> 'n result" where
  "NumType_rule [_] = Inr NumType"
| "NumType_rule _ = Inl (ArityMismatch ''NumType'')"

fun StringType_rule :: "'n wrapper list \<Rightarrow> 'n result" where
  "StringType_rule [_] = Inr StringType"
| "StringType_rule _ = Inl (ArityMismatch ''StringType'')"

fun BooleanType_rule :: "'n wrapper list \<Rightarrow> 'n result" where
  "BooleanType_rule [_] = Inr BooleanType"
| "BooleanType_rule _ = Inl (ArityMismatch ''BooleanType'')"

fun ListType_rule :: "'n wrapper list \<Rightarrow> 'n result" where
  "ListType_rule [_, type, _] = andThen (ast type) (\<lambda>t. Inr (ListType t))"
| "ListType_rule _ = Inl (ArityMismatch ''ListType'')"

fun SetType_rule :: "'n wrapper list \<Rightarrow> 'n result" where
  "SetType_rule [_, type, _] = andThen (ast type) (\<lambda>t. Inr (SetType t))"
| "SetType_rule _ = Inl (ArityMismatch ''SetType'')"

fun DictType_rule :: "'n wrapper list \<Rightarrow> 'n result" where
  "DictType_rule [_, keyType, _, valueType, _] =
     andThen (ast keyType) (\<lambda>k. andThen (ast valueType) (\<lambda>v. Inr (DictType k v)))"
| "DictType_rule _ = Inl (ArityMismatch ''DictType'')"

fun NonemptyListOf :: "'n wrapper list \<Rightarrow> 'n result" where
  "NonemptyListOf [first, _, rest] =
     andThen (ast first) (\<lambda>f. andThen (andThen (ast rest) spread) (\<lambda>rs. Inr (Arr (f # rs))))"
| "NonemptyListOf _ = Inl (ArityMismatch ''NonemptyListOf'')"

fun EmptyListOf :: "'n wrapper list \<Rightarrow> 'n result" where
  "EmptyListOf [] = Inr (Arr [])"
| "EmptyListOf _ = Inl (ArityMismatch ''EmptyListOf'')"

text \<open>
  The literal rules read the text of the whole match, \<^verbatim>\<open>this.sourceString\<close>, and
  none of their sub-matches. \<^verbatim>\<open>===\<close> on two strings compares them code unit by
  code unit. The unary \<^verbatim>\<open>+\<close> of \<^verbatim>\<open>numlit\<close> is the language's conversion of a
  string to a number; it is the parameter \<open>toNumber\<close>.
\<close>

fun boollit :: "string \<Rightarrow> 'n wrapper list \<Rightarrow> 'n result" where
  "boollit this [_] = Inr (BooleanLiteral (this = ''true''))"
| "boollit this _ = Inl (ArityMismatch ''boollit'')"

fun numlit :: "(string \<Rightarrow> 'n) \<Rightarrow> string \<Rightarrow> 'n wrapper list \<Rightarrow> 'n result" where
  "numlit toNumber this [_, _, _, _, _, _] = Inr (NumericLiteral (toNumber this))"
| "numlit toNumber this _ = Inl (ArityMismatch ''numlit'')"

fun strlit :: "string \<Rightarrow> 'n wrapper list \<Rightarrow> 'n result" where
  "strlit this [_, chars, _] = Inr (StringLiteral this)"
| "strlit this _ = Inl (ArityMismatch ''strlit'')"

fun id_rule :: "string \<Rightarrow> 'n wrapper list \<Rightarrow> 'n result" where
  "id_rule this [_, _] = Inr (Str this)"
| "id_rule this _ = Inl (ArityMismatch ''id'')"

definition terminal_rule :: "string \<Rightarrow> 'n result" where
  "terminal_rule this = Inr (Str this)"

text \<open>The table itself: the rule names of the source, each with its entry.\<close>

definition actions ::
  "(string \<Rightarrow> 'n) \<Rightarrow> (string \<times> (string \<Rightarrow> 'n wrapper list \<Rightarrow> 'n result)) list" where
  "actions toNumber =
    [(''Program'', \<lambda>this. Program_rule),
     (''Stmt_simple'', \<lambda>this. Stmt_simple),
     (''Stmt_while'', \<lambda>this. Stmt_while),
     (''Stmt_if'', \<lambda>this. Stmt_if),
     (''Stmt_loop'', \<lambda>this. Stmt_loop),
     (''Stmt_ternary'', \<lambda>this. Stmt_ternary),
     (''Stmt_function'', \<lambda>this. Stmt_function),
     (''SimpleStmt_vardecl'', \<lambda>this. SimpleStmt_vardecl),
     (''SimpleStmt_assign'', \<lambda>this. SimpleStmt_assign),
     (''SimpleStmt_break'', \<lambda>this. SimpleStmt_break),
     (''SimpleStmt_return'', \<lambda>this. SimpleStmt_return),
     (''Block_small'', \<lambda>this. Block_small),
     (''Block_large'', \<lambda>this. Block_large),
     (''Exp_or'', \<lambda>this. Exp_or),
     (''Exp_and'', \<lambda>this. Exp_and),
     (''Exp1_binary'', \<lambda>this. Exp1_binary),
     (''Exp2_binary'', \<lambda>this. Exp2_binary),
     (''Exp3_binary'', \<lambda>this. Exp3_binary),
     (''Exp4_unary'', \<lambda>this. Exp4_unary),
     (''Exp5_parens'', \<lambda>this. Exp5_parens),
     (''Exp5_list'', \<lambda>this. Exp5_list),
     (''Exp5_set'', \<lambda>this. Exp5_set),
     (''Exp5_dict'', \<lambda>this. Exp5_dict),
     (''KeyValue'', \<lambda>this. KeyValue),
     (''Call'', \<lambda>this. Call_rule),
     (''VarExp_subscripted'', \<lambda>this. VarExp_subscripted),
     (''VarExp_simple'', \<lambda>this. VarExp_simple),
     (''Param'', \<lambda>this. Param),
     (''Arg'', \<lambda>this. Arg),
     (''DeclId'', \<lambda>this. DeclId),
     (''NumType'', \<lambda>this. NumType_rule),
     (''StringType'', \<lambda>this. StringType_rule),
     (''BooleanType'', \<lambda>this. BooleanType_rule),
     (''ListType'', \<lambda>this. ListType_rule),
     (''SetType'', \<lambda>this. SetType_rule),
     (''DictType'', \<lambda>this. DictType_rule),
     (''NonemptyListOf'', \<lambda>this. NonemptyListOf),
     (''EmptyListOf'', \<lambda>this. EmptyListOf),
     (''boollit'', boollit),
     (''numlit'', numlit toNumber),
     (''strlit'', strlit),
     (''id'', id_rule)]"

text \<open>
  A rule without an entry: the library passes the operation through to the only child,
  and throws when the rule has no child or several.
\<close>

fun nonterminal_default :: "string \<Rightarrow> 'n wrapper list \<Rightarrow> 'n result" where
  "nonterminal_default name [child] = ast child"
| "nonterminal_default name _ = Inl (MissingSemanticAction name)"

text \<open>
  \<^verbatim>\<open>astGenerator(node)\<close>: the wrapper of a node. Its \<open>ast\<close> is the entry of the
  node's rule applied to the wrappers of the children, the text of a terminal
  (the entry \<^verbatim>\<open>_terminal\<close>), and the array of the children's results for an
  iteration node.
\<close>

fun astGenerator :: "(string \<Rightarrow> 'n) \<Rightarrow> node \<Rightarrow> 'n wrapper" where
  "astGenerator toNumber (Nonterminal name children text) =
     \<lparr>sourceString = text,
      ast = (case map_of (actions toNumber) name of
               Some action \<Rightarrow> action text (map (astGenerator toNumber) children)
             | None \<Rightarrow> nonterminal_default name (map (astGenerator toNumber) children))\<rparr>"
| "astGenerator toNumber (Terminal text) = \<lparr>sourceString = text, ast = terminal_rule text\<rparr>"
| "astGenerator toNumber (Iteration children text) =
     \<lparr>sourceString = text,
      ast = andThen (collect (map (\<lambda>c. ast (astGenerator toNumber c)) children))
              (\<lambda>vs. Inr (Arr vs))\<rparr>"

section \<open>The parser's entry point\<close>

text \<open>
  The outcome of \<^verbatim>\<open>grammar.match\<close>: a match that succeeded, with the tree's root, or
  one that failed, with its \<^verbatim>\<open>message\<close>.
\<close>

datatype MatchResult =
    MatchSucceeded node
  | MatchFailed string

text \<open>
  \<^verbatim>\<open>module.exports = (text) => ...\<close> of the parser module. The pre-parser
  \<^verbatim>\<open>withIndentsAndDedents\<close> (a file that is not among the sources) and the match
  against the grammar are parameters; the pre-parser may throw, and then nothing else
  runs.
\<close>

definition parse ::
  "(string \<Rightarrow> error + string) \<Rightarrow> (string \<Rightarrow> MatchResult) \<Rightarrow> (string \<Rightarrow> 'n)
     \<Rightarrow> string \<Rightarrow> 'n result" where
  "parse withIndentsAndDedents grammar_match toNumber text =
     (case withIndentsAndDedents text of
        Inl e \<Rightarrow> Inl e
      | Inr prepared \<Rightarrow>
          (case grammar_match prepared of
             MatchFailed message \<Rightarrow> Inl (Error (''Syntax Error: '' @ message))
           | MatchSucceeded root \<Rightarrow> ast (astGenerator toNumber root)))"

section \<open>Example matches\<close>

text \<open>
  Concrete trees of the shape the matcher produces, for evaluating the builders. The
  rule names without an entry in the table (\<^verbatim>\<open>Stmt\<close>, \<^verbatim>\<open>SimpleStmt\<close>,
  \<^verbatim>\<open>Block\<close>, \<^verbatim>\<open>Exp\<close>) have a single child each. None of the trees holds a
  numeric literal, so they are evaluated with the one-element type for numbers.
\<close>

definition example_id :: "string \<Rightarrow> node" where
  "example_id name =
     Nonterminal ''id''
       [Terminal (take 1 name), Iteration (map (\<lambda>c. Terminal [c]) (drop 1 name)) (drop 1 name)]
       name"

definition example_variable :: "string \<Rightarrow> node" where
  "example_variable name =
     Nonterminal ''Exp'' [Nonterminal ''VarExp_simple'' [example_id name] name] name"

definition example_break :: node where
  "example_break =
     Nonterminal ''Stmt''
       [Nonterminal ''Stmt_simple''
          [Nonterminal ''SimpleStmt''
             [Nonterminal ''SimpleStmt_break'' [Terminal ''break''] ''break''] ''break'',
           Terminal ''; '']
          ''break; '']
       ''break; ''"

definition example_block :: node where
  "example_block =
     Nonterminal ''Block''
       [Nonterminal ''Block_large''
          [Terminal '': '', Terminal ''{ '', Iteration [] [],
           Iteration [example_break] ''break; '', Terminal ''} '']
          '': { break; } '']
       '': { break; } ''"

definition example_if :: node where
  "example_if =
     Nonterminal ''Stmt_if''
       [Terminal ''if'', example_variable ''a'', example_block,
        Iteration [Terminal ''else if''] ''else if b: { break; } '',
        Iteration [example_variable ''b''] ''b'',
        Iteration [example_block] '': { break; } '',
        Iteration [] [],
        Iteration [] []]
       ''if a: { break; } else if b: { break; } ''"

definition example_if_else :: node where
  "example_if_else =
     Nonterminal ''Stmt_if''
       [Terminal ''if'', example_variable ''a'', example_block,
        Iteration [] [],
        Iteration [] [],
        Iteration [] [],
        Iteration [Terminal ''else''] ''else'',
        Iteration [example_block] '': { break; } '']
       ''if a: { break; } else: { break; } ''"

definition example_boollit :: "string \<Rightarrow> node" where
  "example_boollit text = Nonterminal ''Exp'' [Nonterminal ''boollit'' [Terminal text] text] text"

definition example_program :: node where
  "example_program =
     Nonterminal ''Program'' [Iteration [] [], Iteration [example_break] ''break; '', Iteration [] []]
       ''break; ''"

definition example_match :: "string \<Rightarrow> MatchResult" where
  "example_match prepared =
     (if prepared = ''break; '' then MatchSucceeded example_program
      else MatchFailed ''Line 1, col 1: expected a statement'')"

definition example_return :: "node list \<Rightarrow> node" where
  "example_return value =
     Nonterminal ''SimpleStmt_return'' [Terminal ''return'', Iteration value ''x''] ''return x''"

definition example_param :: "node list \<Rightarrow> node" where
  "example_param dflt =
     Nonterminal ''Param''
       [Nonterminal ''NumType'' [Terminal ''num''] ''num'', example_id ''n'',
        Iteration (map (\<lambda>d. Terminal ''='') dflt) ''='', Iteration dflt ''x'']
       ''num n = x''"

text \<open>
  Modelled from the spec: the grammar file is not among the sources, so the shape of
  the function rule's first sub-match is taken from the data model, which gives a
  function declaration a return type that may be absent (\<^verbatim>\<open>returnType: TypeKind?\<close>,
  null if none). The return type is then an optional sub-match: an iteration node with
  no child for a declaration without a return type, and with one child otherwise. The
  argument is the list of that node's children.
\<close>

definition example_function :: "node list \<Rightarrow> node" where
  "example_function returnType =
     Nonterminal ''Stmt_function''
       [Iteration returnType ''num'', example_id ''f'', Terminal ''('',
        Nonterminal ''Params'' [Nonterminal ''EmptyListOf'' [] []] [], Terminal '')'',
        example_block]
       ''num f(): { break; } ''"

definition example_loop :: node where
  "example_loop =
     Nonterminal ''Stmt_loop''
       [Terminal ''from'', example_id ''i'', Terminal ''='', example_variable ''a'',
        Terminal ''to'', example_variable ''b'', Terminal ''by'', Iteration [] [],
        example_block]
       ''from i = a to b by : { break; } ''"

definition example_ternary :: node where
  "example_ternary =
     Nonterminal ''Stmt_ternary''
       [example_variable ''x'', Terminal ''if'', example_boollit ''true'', Terminal ''else'',
        example_variable ''y'']
       ''x if true else y''"

text \<open>
  The text of a string literal: a double quote, the letter a, a backslash, the letter
  n, a double quote.
\<close>

definition example_strlit :: node where
  "example_strlit =
     Nonterminal ''strlit''
       [Terminal [CHR 0x22],
        Iteration [Terminal ''a'', Terminal [CHR 0x5C, CHR ''n'']] [CHR ''a'', CHR 0x5C, CHR ''n''],
        Terminal [CHR 0x22]]
       [CHR 0x22, CHR ''a'', CHR 0x5C, CHR ''n'', CHR 0x22]"

definition example_context :: "unit Context" where
  "example_context =
     Context [(''x'', NumType)] (Some (Context [(''f'', BooleanType)] None False None)) True
       (Some NumType)"

definition example_root_context :: "unit Context" where
  "example_root_context = Context [(''x'', NumType)] None False None"

section \<open>Auxiliary facts\<close>

lemmas example_defs =
  example_id_def example_variable_def example_break_def example_block_def example_if_def
  example_if_else_def example_boollit_def example_program_def example_return_def
  example_param_def example_loop_def example_ternary_def example_strlit_def
  example_function_def

text \<open>No builder returns \<^verbatim>\<open>null\<close>: it only ever appears inside a node.\<close>

named_theorems not_null

lemma andThen_Inr_iff: "(andThen r f = Inr v) = (\<exists>x. r = Inr x \<and> f x = Inr v)"
  by (cases r) simp_all

lemma Program_rule_not_null [not_null]:
  "\<forall>w \<in> set ws. ast w \<noteq> Inr Null \<Longrightarrow> Program_rule ws \<noteq> Inr Null"
  by (cases ws rule: Program_rule.cases) (auto simp: andThen_Inr_iff)

lemma Stmt_simple_not_null [not_null]:
  "\<forall>w \<in> set ws. ast w \<noteq> Inr Null \<Longrightarrow> Stmt_simple ws \<noteq> Inr Null"
  by (cases ws rule: Stmt_simple.cases) (auto simp: andThen_Inr_iff)

lemma Stmt_while_not_null [not_null]:
  "\<forall>w \<in> set ws. ast w \<noteq> Inr Null \<Longrightarrow> Stmt_while ws \<noteq> Inr Null"
  by (cases ws rule: Stmt_while.cases) (auto simp: andThen_Inr_iff)

lemma Stmt_if_not_null [not_null]:
  "\<forall>w \<in> set ws. ast w \<noteq> Inr Null \<Longrightarrow> Stmt_if ws \<noteq> Inr Null"
  by (cases ws rule: Stmt_if.cases) (auto simp: andThen_Inr_iff)

lemma Stmt_loop_not_null [not_null]:
  "\<forall>w \<in> set ws. ast w \<noteq> Inr Null \<Longrightarrow> Stmt_loop ws \<noteq> Inr Null"
  by (cases ws rule: Stmt_loop.cases) (auto simp: andThen_Inr_iff)

lemma Stmt_ternary_not_null [not_null]:
  "\<forall>w \<in> set ws. ast w \<noteq> Inr Null \<Longrightarrow> Stmt_ternary ws \<noteq> Inr Null"
  by (cases ws rule: Stmt_ternary.cases) (auto simp: andThen_Inr_iff)

lemma Stmt_function_not_null [not_null]:
  "\<forall>w \<in> set ws. ast w \<noteq> Inr Null \<Longrightarrow> Stmt_function ws \<noteq> Inr Null"
  by (cases ws rule: Stmt_function.cases) (auto simp: andThen_Inr_iff)

lemma SimpleStmt_vardecl_not_null [not_null]:
  "\<forall>w \<in> set ws. ast w \<noteq> Inr Null \<Longrightarrow> SimpleStmt_vardecl ws \<noteq> Inr Null"
  by (cases ws rule: SimpleStmt_vardecl.cases) (auto simp: andThen_Inr_iff)

lemma SimpleStmt_assign_not_null [not_null]:
  "\<forall>w \<in> set ws. ast w \<noteq> Inr Null \<Longrightarrow> SimpleStmt_assign ws \<noteq> Inr Null"
  by (cases ws rule: SimpleStmt_assign.cases) (auto simp: andThen_Inr_iff)

lemma SimpleStmt_break_not_null [not_null]:
  "\<forall>w \<in> set ws. ast w \<noteq> Inr Null \<Longrightarrow> SimpleStmt_break ws \<noteq> Inr Null"
  by (cases ws rule: SimpleStmt_break.cases) (auto simp: andThen_Inr_iff)

lemma SimpleStmt_return_not_null [not_null]:
  "\<forall>w \<in> set ws. ast w \<noteq> Inr Null \<Longrightarrow> SimpleStmt_return ws \<noteq> Inr Null"
  by (cases ws rule: SimpleStmt_return.cases) (auto simp: andThen_Inr_iff)

lemma Block_small_not_null [not_null]:
  "\<forall>w \<in> set ws. ast w \<noteq> Inr Null \<Longrightarrow> Block_small ws \<noteq> Inr Null"
  by (cases ws rule: Block_small.cases) (auto simp: andThen_Inr_iff)

lemma Block_large_not_null [not_null]:
  "\<forall>w \<in> set ws. ast w \<noteq> Inr Null \<Longrightarrow> Block_large ws \<noteq> Inr Null"
  by (cases ws rule: Block_large.cases) (auto simp: andThen_Inr_iff)

lemma Exp_or_not_null [not_null]:
  "\<forall>w \<in> set ws. ast w \<noteq> Inr Null \<Longrightarrow> Exp_or ws \<noteq> Inr Null"
  by (cases ws rule: Exp_or.cases) (auto simp: andThen_Inr_iff)

lemma Exp_and_not_null [not_null]:
  "\<forall>w \<in> set ws. ast w \<noteq> Inr Null \<Longrightarrow> Exp_and ws \<noteq> Inr Null"
  by (cases ws rule: Exp_and.cases) (auto simp: andThen_Inr_iff)

lemma Exp1_binary_not_null [not_null]:
  "\<forall>w \<in> set ws. ast w \<noteq> Inr Null \<Longrightarrow> Exp1_binary ws \<noteq> Inr Null"
  by (cases ws rule: Exp1_binary.cases) (auto simp: andThen_Inr_iff)

lemma Exp2_binary_not_null [not_null]:
  "\<forall>w \<in> set ws. ast w \<noteq> Inr Null \<Longrightarrow> Exp2_binary ws \<noteq> Inr Null"
  by (cases ws rule: Exp2_binary.cases) (auto simp: andThen_Inr_iff)

lemma Exp3_binary_not_null [not_null]:
  "\<forall>w \<in> set ws. ast w \<noteq> Inr Null \<Longrightarrow> Exp3_binary ws \<noteq> Inr Null"
  by (cases ws rule: Exp3_binary.cases) (auto simp: andThen_Inr_iff)

lemma Exp4_unary_not_null [not_null]:
  "\<forall>w \<in> set ws. ast w \<noteq> Inr Null \<Longrightarrow> Exp4_unary ws \<noteq> Inr Null"
  by (cases ws rule: Exp4_unary.cases) (auto simp: andThen_Inr_iff)

lemma Exp5_parens_not_null [not_null]:
  "\<forall>w \<in> set ws. ast w \<noteq> Inr Null \<Longrightarrow> Exp5_parens ws \<noteq> Inr Null"
  by (cases ws rule: Exp5_parens.cases) (auto simp: andThen_Inr_iff)

lemma Exp5_list_not_null [not_null]:
  "\<forall>w \<in> set ws. ast w \<noteq> Inr Null \<Longrightarrow> Exp5_list ws \<noteq> Inr Null"
  by (cases ws rule: Exp5_list.cases) (auto simp: andThen_Inr_iff)

lemma Exp5_set_not_null [not_null]:
  "\<forall>w \<in> set ws. ast w \<noteq> Inr Null \<Longrightarrow> Exp5_set ws \<noteq> Inr Null"
  by (cases ws rule: Exp5_set.cases) (auto simp: andThen_Inr_iff)

lemma Exp5_dict_not_null [not_null]:
  "\<forall>w \<in> set ws. ast w \<noteq> Inr Null \<Longrightarrow> Exp5_dict ws \<noteq> Inr Null"
  by (cases ws rule: Exp5_dict.cases) (auto simp: andThen_Inr_iff)

lemma KeyValue_not_null [not_null]:
  "\<forall>w \<in> set ws. ast w \<noteq> Inr Null \<Longrightarrow> KeyValue ws \<noteq> Inr Null"
  by (cases ws rule: KeyValue.cases) (auto simp: andThen_Inr_iff)

lemma Call_rule_not_null [not_null]:
  "\<forall>w \<in> set ws. ast w \<noteq> Inr Null \<Longrightarrow> Call_rule ws \<noteq> Inr Null"
  by (cases ws rule: Call_rule.cases) (auto simp: andThen_Inr_iff)

lemma VarExp_subscripted_not_null [not_null]:
  "\<forall>w \<in> set ws. ast w \<noteq> Inr Null \<Longrightarrow> VarExp_subscripted ws \<noteq> Inr Null"
  by (cases ws rule: VarExp_subscripted.cases) (auto simp: andThen_Inr_iff)

lemma VarExp_simple_not_null [not_null]:
  "\<forall>w \<in> set ws. ast w \<noteq> Inr Null \<Longrightarrow> VarExp_simple ws \<noteq> Inr Null"
  by (cases ws rule: VarExp_simple.cases) (auto simp: andThen_Inr_iff)

lemma Param_not_null [not_null]:
  "\<forall>w \<in> set ws. ast w \<noteq> Inr Null \<Longrightarrow> Param ws \<noteq> Inr Null"
  by (cases ws rule: Param.cases) (auto simp: andThen_Inr_iff)

lemma Arg_not_null [not_null]:
  "\<forall>w \<in> set ws. ast w \<noteq> Inr Null \<Longrightarrow> Arg ws \<noteq> Inr Null"
  by (cases ws rule: Arg.cases) (auto simp: andThen_Inr_iff)

lemma DeclId_not_null [not_null]:
  "\<forall>w \<in> set ws. ast w \<noteq> Inr Null \<Longrightarrow> DeclId ws \<noteq> Inr Null"
  by (cases ws rule: DeclId.cases) (auto simp: andThen_Inr_iff)

lemma NumType_rule_not_null [not_null]:
  "\<forall>w \<in> set ws. ast w \<noteq> Inr Null \<Longrightarrow> NumType_rule ws \<noteq> Inr Null"
  by (cases ws rule: NumType_rule.cases) (auto simp: andThen_Inr_iff)

lemma StringType_rule_not_null [not_null]:
  "\<forall>w \<in> set ws. ast w \<noteq> Inr Null \<Longrightarrow> StringType_rule ws \<noteq> Inr Null"
  by (cases ws rule: StringType_rule.cases) (auto simp: andThen_Inr_iff)

lemma BooleanType_rule_not_null [not_null]:
  "\<forall>w \<in> set ws. ast w \<noteq> Inr Null \<Longrightarrow> BooleanType_rule ws \<noteq> Inr Null"
  by (cases ws rule: BooleanType_rule.cases) (auto simp: andThen_Inr_iff)

lemma ListType_rule_not_null [not_null]:
  "\<forall>w \<in> set ws. ast w \<noteq> Inr Null \<Longrightarrow> ListType_rule ws \<noteq> Inr Null"
  by (cases ws rule: ListType_rule.cases) (auto simp: andThen_Inr_iff)

lemma SetType_rule_not_null [not_null]:
  "\<forall>w \<in> set ws. ast w \<noteq> Inr Null \<Longrightarrow> SetType_rule ws \<noteq> Inr Null"
  by (cases ws rule: SetType_rule.cases) (auto simp: andThen_Inr_iff)

lemma DictType_rule_not_null [not_null]:
  "\<forall>w \<in> set ws. ast w \<noteq> Inr Null \<Longrightarrow> DictType_rule ws \<noteq> Inr Null"
  by (cases ws rule: DictType_rule.cases) (auto simp: andThen_Inr_iff)

lemma NonemptyListOf_not_null [not_null]:
  "\<forall>w \<in> set ws. ast w \<noteq> Inr Null \<Longrightarrow> NonemptyListOf ws \<noteq> Inr Null"
  by (cases ws rule: NonemptyListOf.cases) (auto simp: andThen_Inr_iff)

lemma EmptyListOf_not_null [not_null]:
  "\<forall>w \<in> set ws. ast w \<noteq> Inr Null \<Longrightarrow> EmptyListOf ws \<noteq> Inr Null"
  by (cases ws rule: EmptyListOf.cases) (auto simp: andThen_Inr_iff)

lemma boollit_not_null [not_null]: "boollit this ws \<noteq> Inr Null"
  by (cases "(this, ws)" rule: boollit.cases) auto

lemma strlit_not_null [not_null]: "strlit this ws \<noteq> Inr Null"
  by (cases "(this, ws)" rule: strlit.cases) auto

lemma id_rule_not_null [not_null]: "id_rule this ws \<noteq> Inr Null"
  by (cases "(this, ws)" rule: id_rule.cases) auto

lemma numlit_not_null [not_null]: "numlit tn this ws \<noteq> Inr Null"
  by (cases "(tn, this, ws)" rule: numlit.cases) auto

lemma entry_not_null:
  assumes "(name, action) \<in> set (actions tn)"
    and "\<forall>w \<in> set ws. ast w \<noteq> Inr Null"
  shows "action this ws \<noteq> Inr Null"
  using assms by (auto simp: actions_def not_null)

lemma ast_not_null: "ast (astGenerator tn n) \<noteq> Inr Null"
proof (induction n)
  case (Nonterminal name cs src)
  have ws: "\<forall>w \<in> set (map (astGenerator tn) cs). ast w \<noteq> Inr Null"
    using Nonterminal by auto
  show ?case
  proof (cases "map_of (actions tn) name")
    case None
    then show ?thesis using ws
      by (cases "(name, map (astGenerator tn) cs)" rule: nonterminal_default.cases) auto
  next
    case (Some action)
    then have "(name, action) \<in> set (actions tn)" by (rule map_of_SomeD)
    from entry_not_null [OF this ws] Some show ?thesis by simp
  qed
next
  case (Terminal src)
  show ?case by (simp add: terminal_rule_def)
next
  case (Iteration cs src)
  show ?case by (auto simp: andThen_Inr_iff)
qed


lemma collect_map_Inr: "collect (map Inr vs) = Inr vs"
  by (induction vs) simp_all

lemma lookup_Stmt_if: "map_of (actions tn) ''Stmt_if'' = Some (\<lambda>this. Stmt_if)"
  by (simp add: actions_def)

lemma lookup_Stmt_loop: "map_of (actions tn) ''Stmt_loop'' = Some (\<lambda>this. Stmt_loop)"
  by (simp add: actions_def)

lemma lookup_Stmt_ternary: "map_of (actions tn) ''Stmt_ternary'' = Some (\<lambda>this. Stmt_ternary)"
  by (simp add: actions_def)

lemma lookup_SimpleStmt_return:
  "map_of (actions tn) ''SimpleStmt_return'' = Some (\<lambda>this. SimpleStmt_return)"
  by (simp add: actions_def)

lemma lookup_Param: "map_of (actions tn) ''Param'' = Some (\<lambda>this. Param)"
  by (simp add: actions_def)

lemma lookup_boollit: "map_of (actions tn) ''boollit'' = Some boollit"
  by (simp add: actions_def)

lemma lookup_numlit: "map_of (actions tn) ''numlit'' = Some (numlit tn)"
  by (simp add: actions_def)

lemma lookup_strlit: "map_of (actions tn) ''strlit'' = Some strlit"
  by (simp add: actions_def)

lemma lookup_id: "map_of (actions tn) ''id'' = Some id_rule"
  by (simp add: actions_def)

lemma sourceString_astGenerator [simp]:
  "sourceString (astGenerator tn (Nonterminal name cs src)) = src"
  "sourceString (astGenerator tn (Terminal src)) = src"
  "sourceString (astGenerator tn (Iteration cs src)) = src"
  by simp_all

lemma ast_Iteration:
  "map (\<lambda>n. ast (astGenerator tn n)) cs = map Inr vs
   \<Longrightarrow> ast (astGenerator tn (Iteration cs src)) = Inr (Arr vs)"
  by (simp add: collect_map_Inr)

lemma example_variable_ast:
  "ast (astGenerator tn (example_variable name)) = Inr (IdentifierExpression (Str name))"
  by (simp add: example_defs actions_def)

lemma example_block_ast:
  "ast (astGenerator tn example_block) = Inr (Arr [BreakStatement])"
  by (simp add: example_defs actions_def)

lemma example_boollit_ast:
  "ast (astGenerator tn (example_boollit text)) = Inr (BooleanLiteral (text = ''true''))"
  by (simp add: example_defs actions_def)

lemma example_id_ast: "ast (astGenerator tn (example_id name)) = Inr (Str name)"
  by (simp add: example_defs actions_def)
section \<open>Properties\<close>

text \<open>
  C1. Analysing a break statement in a context fails with the break-outside-loop
  diagnostic if and only if the context's \<open>inLoop\<close> flag is false; when the flag is
  true the analysis succeeds.
\<close>

theorem analyze_fails_iff_not_inLoop:
  "(fst (analyze context) = Inl (Error ''Break Statement out of Loop'')) = (\<not> inLoop context)
   \<and> ((\<exists>e. fst (analyze context) = Inl e) = (\<not> inLoop context))
   \<and> (inLoop context \<longrightarrow> fst (analyze context) = Inr Undefined)"
  by (simp add: analyze_def)

theorem analyze_fails_iff_not_inLoop_witness:
  "inLoop example_context
   \<and> fst (analyze example_context) = Inr Undefined
   \<and> \<not> inLoop example_root_context
   \<and> fst (analyze example_root_context)
       = Inl (Error ''Break Statement out of Loop'')"
  using analyze_fails_iff_not_inLoop [of example_context]
    analyze_fails_iff_not_inLoop [of example_root_context]
  by (simp add: example_context_def example_root_context_def)

text \<open>
  C2. For every input text that the pre-parser accepts: when the grammar match fails,
  \<open>parse\<close> throws an error whose message is \<^verbatim>\<open>Syntax Error: \<close> followed by the
  match's message, and returns no tree; when the match succeeds, its outcome is exactly
  that of the \<^verbatim>\<open>ast\<close> operation of the table on the root of the match.
\<close>

theorem parse_error_or_generated_ast:
  assumes "withIndentsAndDedents text = Inr prepared"
  shows "(grammar_match prepared = MatchFailed message \<longrightarrow>
            parse withIndentsAndDedents grammar_match toNumber text
              = Inl (Error (''Syntax Error: '' @ message)))
       \<and> (grammar_match prepared = MatchSucceeded root \<longrightarrow>
            parse withIndentsAndDedents grammar_match toNumber text
              = ast (astGenerator toNumber root))"
  using assms by (simp add: parse_def)

theorem parse_error_or_generated_ast_witness:
  "Inr ''break; '' = (Inr ''break; '' :: error + string)
   \<and> example_match ''break; '' = MatchSucceeded example_program
   \<and> parse Inr example_match (\<lambda>s. ()) ''break; '' = Inr (Program (Arr [BreakStatement]))
   \<and> example_match ''brake; '' = MatchFailed ''Line 1, col 1: expected a statement''
   \<and> parse Inr example_match (\<lambda>s. ()) ''brake; ''
       = Inl (Error ''Syntax Error: Line 1, col 1: expected a statement'')"
proof -
  have ok: "example_match ''break; '' = MatchSucceeded example_program"
    and bad: "example_match ''brake; '' = MatchFailed ''Line 1, col 1: expected a statement''"
    by (simp_all add: example_match_def)
  have tree: "ast (astGenerator (\<lambda>s. ()) example_program) = Inr (Program (Arr [BreakStatement]))"
    by (simp add: example_defs actions_def)
  from parse_error_or_generated_ast [of Inr "''break; ''" "''break; ''" example_match
      "''''" "\<lambda>s. ()" example_program]
    parse_error_or_generated_ast [of Inr "''brake; ''" "''brake; ''" example_match
      "''Line 1, col 1: expected a statement''" "\<lambda>s. ()" example_program]
    ok bad tree
  show ?thesis by simp
qed
text \<open>
  C3. The builder of \<^verbatim>\<open>boollit\<close> yields \<open>BooleanLiteral True\<close> exactly when the
  matched text is \<^verbatim>\<open>true\<close>, character for character, and \<open>BooleanLiteral False\<close>
  for every other matched text.
\<close>

theorem boollit_true_iff_text_true:
  "ast (astGenerator toNumber (Nonterminal ''boollit'' [c] text))
     = Inr (BooleanLiteral (text = ''true''))
   \<and> (text = ''true'' \<longrightarrow>
        ast (astGenerator toNumber (Nonterminal ''boollit'' [c] text))
          = Inr (BooleanLiteral True))
   \<and> (text \<noteq> ''true'' \<longrightarrow>
        ast (astGenerator toNumber (Nonterminal ''boollit'' [c] text))
          = Inr (BooleanLiteral False))"
  by (simp add: lookup_boollit)

theorem boollit_true_iff_text_true_witness:
  "ast (astGenerator (\<lambda>s. ()) (Nonterminal ''boollit'' [Terminal ''true''] ''true''))
     = Inr (BooleanLiteral True)
   \<and> ''false'' \<noteq> ''true''
   \<and> ast (astGenerator (\<lambda>s. ()) (Nonterminal ''boollit'' [Terminal ''false''] ''false''))
     = Inr (BooleanLiteral False)
   \<and> ''truex'' \<noteq> ''true''
   \<and> ast (astGenerator (\<lambda>s. ()) (Nonterminal ''boollit'' [Terminal ''truex''] ''truex''))
     = Inr (BooleanLiteral False)"
  using boollit_true_iff_text_true [of "\<lambda>s. ()" "Terminal ''true''" "''true''"]
    boollit_true_iff_text_true [of "\<lambda>s. ()" "Terminal ''false''" "''false''"]
    boollit_true_iff_text_true [of "\<lambda>s. ()" "Terminal ''truex''" "''truex''"]
  by simp
text \<open>
  The three builders that call \<open>arrayToNullable\<close>: the value of a return statement,
  the default of a parameter and the else block of an if statement are
  \<^verbatim>\<open>null\<close> when the optional sub-match is absent and the built sub-match itself
  when it is present.
\<close>

theorem optional_submatch_collapsed:
  assumes "ast (astGenerator toNumber e) = Inr x"
    and "ast (astGenerator toNumber type) = Inr t"
    and "ast (astGenerator toNumber ident) = Inr i"
    and "ast (astGenerator toNumber test) = Inr c"
    and "ast (astGenerator toNumber block) = Inr b"
  shows "arrayToNullable (Arr [x]) = Inr x
    \<and> arrayToNullable (Arr []) = (Inr Null :: 'n result)
    \<and> ast (astGenerator toNumber
            (Nonterminal ''SimpleStmt_return'' [kw, Iteration [e] ot] src))
           = Inr (ReturnStatement x)
    \<and> ast (astGenerator toNumber
            (Nonterminal ''SimpleStmt_return'' [kw, Iteration [] ot] src))
           = Inr (ReturnStatement Null)
    \<and> ast (astGenerator toNumber
            (Nonterminal ''Param'' [type, ident, mid, Iteration [e] ot] src))
           = Inr (Parameter t i x)
    \<and> ast (astGenerator toNumber
            (Nonterminal ''Param'' [type, ident, mid, Iteration [] ot] src))
           = Inr (Parameter t i Null)
    \<and> ast (astGenerator toNumber
            (Nonterminal ''Stmt_if''
               [kw, test, block, mid, Iteration [] su, Iteration [] sv, els, Iteration [e] ot] src))
           = Inr (IfStatement (Arr [c]) (Arr [b]) x)
    \<and> ast (astGenerator toNumber
            (Nonterminal ''Stmt_if''
               [kw, test, block, mid, Iteration [] su, Iteration [] sv, els, Iteration [] ot] src))
           = Inr (IfStatement (Arr [c]) (Arr [b]) Null)"
  using assms by (simp add: lookup_SimpleStmt_return lookup_Param lookup_Stmt_if)

theorem optional_submatch_collapsed_witness:
  "ast (astGenerator (\<lambda>s. ()) (example_return [example_variable ''x'']))
     = Inr (ReturnStatement (IdentifierExpression (Str ''x'')))
   \<and> ast (astGenerator (\<lambda>s. ()) (example_return [])) = Inr (ReturnStatement Null)
   \<and> ast (astGenerator (\<lambda>s. ()) (example_param [example_variable ''x'']))
     = Inr (Parameter NumType (Str ''n'') (IdentifierExpression (Str ''x'')))
   \<and> ast (astGenerator (\<lambda>s. ()) (example_param [])) = Inr (Parameter NumType (Str ''n'') Null)"
proof -
  let ?tn = "\<lambda>s::string. ()"
  have x: "ast (astGenerator ?tn (example_variable ''x'')) = Inr (IdentifierExpression (Str ''x''))"
    by (rule example_variable_ast)
  have t: "ast (astGenerator ?tn (Nonterminal ''NumType'' [Terminal ''num''] ''num'')) = Inr NumType"
    by (simp add: actions_def)
  have i: "ast (astGenerator ?tn (example_id ''n'')) = Inr (Str ''n'')"
    by (rule example_id_ast)
  have b: "ast (astGenerator ?tn example_block) = Inr (Arr [BreakStatement])"
    by (rule example_block_ast)
  from optional_submatch_collapsed [OF x t i x b, where kw = "Terminal ''return''"
        and ot = "''x''" and src = "''return x''"]
    optional_submatch_collapsed [OF x t i x b, where mid = "Iteration [Terminal ''=''] ''=''"
        and ot = "''x''" and src = "''num n = x''"]
    optional_submatch_collapsed [OF x t i x b, where mid = "Iteration [] ''=''"
        and ot = "''x''" and src = "''num n = x''"]
  show ?thesis by (simp add: example_return_def example_param_def)
qed

text \<open>
  C5. In the node that the if-statement rule builds, the tests and the consequents are
  sequences of equal length, the i-th test is the tree of the i-th condition and the
  i-th consequent the tree of the i-th block, in source order, and the alternate is
  \<^verbatim>\<open>null\<close> exactly when the match has no trailing else block. The matcher makes
  the iteration nodes of one repeated group equally long, which is the last
  assumption.
\<close>

theorem Stmt_if_parallel_sequences:
  assumes ft: "ast (astGenerator toNumber firstTest) = Inr t"
    and mt: "map (\<lambda>n. ast (astGenerator toNumber n)) moreTests = map Inr ts"
    and fb: "ast (astGenerator toNumber firstBlock) = Inr b"
    and mb: "map (\<lambda>n. ast (astGenerator toNumber n)) moreBlocks = map Inr bs"
    and lb: "map (\<lambda>n. ast (astGenerator toNumber n)) lastBlock = map Inr alt"
    and len: "length moreTests = length moreBlocks"
  shows "ast (astGenerator toNumber (Nonterminal ''Stmt_if''
                 [k1, firstTest, firstBlock, k2, Iteration moreTests s1, Iteration moreBlocks s2,
                  k3, Iteration lastBlock s3] text))
             = Inr (IfStatement (Arr (t # ts)) (Arr (b # bs))
                     (case alt of [] \<Rightarrow> Null | x # xs \<Rightarrow> x))
         \<and> length (t # ts) = length (b # bs)
         \<and> (\<forall>i < length (t # ts).
               ast (astGenerator toNumber ((firstTest # moreTests) ! i)) = Inr ((t # ts) ! i)
             \<and> ast (astGenerator toNumber ((firstBlock # moreBlocks) ! i)) = Inr ((b # bs) ! i))
         \<and> ((case alt of [] \<Rightarrow> Null | x # xs \<Rightarrow> x) = Null) = (lastBlock = [])"
proof -
  let ?G = "astGenerator toNumber"
  have lt: "length ts = length moreTests" and lbs: "length bs = length moreBlocks"
    and la: "length alt = length lastBlock"
    using mt mb lb by (metis length_map)+
  have tests: "map (\<lambda>n. ast (?G n)) (firstTest # moreTests) = map Inr (t # ts)"
    using ft mt by simp
  have blocks: "map (\<lambda>n. ast (?G n)) (firstBlock # moreBlocks) = map Inr (b # bs)"
    using fb mb by simp
  have aligned: "ast (?G ((firstTest # moreTests) ! i)) = Inr ((t # ts) ! i)
      \<and> ast (?G ((firstBlock # moreBlocks) ! i)) = Inr ((b # bs) ! i)"
    if "i < length (t # ts)" for i
  proof -
    from that lt have i1: "i < length (firstTest # moreTests)" by simp
    from that lt lbs len have i2: "i < length (firstBlock # moreBlocks)" by simp
    have "map (\<lambda>n. ast (?G n)) (firstTest # moreTests) ! i = map Inr (t # ts) ! i"
      using tests by simp
    moreover have "map (\<lambda>n. ast (?G n)) (firstBlock # moreBlocks) ! i = map Inr (b # bs) ! i"
      using blocks by simp
    ultimately show ?thesis
      using i1 i2 that lt lbs len by (simp only: nth_map length_Cons)
  qed
  define alternate where "alternate = (case alt of [] \<Rightarrow> Null | x # xs \<Rightarrow> x)"
  have alt_res: "arrayToNullable (Arr alt) = Inr alternate"
    by (cases alt) (simp_all add: alternate_def)
  have built: "ast (?G (Nonterminal ''Stmt_if''
                 [k1, firstTest, firstBlock, k2, Iteration moreTests s1, Iteration moreBlocks s2,
                  k3, Iteration lastBlock s3] text))
             = Inr (IfStatement (Arr (t # ts)) (Arr (b # bs)) alternate)"
    using ft fb mt mb lb alt_res by (simp add: lookup_Stmt_if collect_map_Inr)
  have null_iff: "(alternate = Null) = (lastBlock = [])"
  proof (cases lastBlock)
    case Nil
    with la show ?thesis by (simp add: alternate_def)
  next
    case (Cons n ns)
    with lb obtain x xs where alt: "alt = x # xs" and x: "ast (?G n) = Inr x"
      by (cases alt) auto
    from x ast_not_null [of toNumber n] have "x \<noteq> Null" by auto
    with alt Cons show ?thesis by (simp add: alternate_def)
  qed
  from built lt lbs len aligned null_iff show ?thesis
    unfolding alternate_def by simp
qed

theorem Stmt_if_parallel_sequences_witness:
  "ast (astGenerator (\<lambda>s. ()) example_if)
     = Inr (IfStatement
              (Arr [IdentifierExpression (Str ''a''), IdentifierExpression (Str ''b'')])
              (Arr [Arr [BreakStatement], Arr [BreakStatement]])
              Null)
   \<and> ast (astGenerator (\<lambda>s. ()) example_if_else)
     = Inr (IfStatement
              (Arr [IdentifierExpression (Str ''a'')])
              (Arr [Arr [BreakStatement]])
              (Arr [BreakStatement]))"
proof -
  let ?tn = "\<lambda>s::string. ()"
  have a: "ast (astGenerator ?tn (example_variable ''a'')) = Inr (IdentifierExpression (Str ''a''))"
    by (rule example_variable_ast)
  have blk: "ast (astGenerator ?tn example_block) = Inr (Arr [BreakStatement])"
    by (rule example_block_ast)
  have mt: "map (\<lambda>n. ast (astGenerator ?tn n)) [example_variable ''b'']
              = map Inr [IdentifierExpression (Str ''b'')]"
    by (simp add: example_variable_ast)
  have mb: "map (\<lambda>n. ast (astGenerator ?tn n)) [example_block] = map Inr [Arr [BreakStatement]]"
    by (simp add: example_block_ast)
  have none: "map (\<lambda>n. ast (astGenerator ?tn n)) [] = map Inr []"
    by simp
  have len: "length [example_variable ''b''] = length [example_block]" "length ([]::node list) = length ([]::node list)"
    by simp_all
  from Stmt_if_parallel_sequences [OF a mt blk mb none len(1),
      of "Terminal ''if''" "Iteration [Terminal ''else if''] ''else if b: { break; } ''"
        "''b''" "'': { break; } ''" "Iteration [] []" "[]"
        "''if a: { break; } else if b: { break; } ''"]
    Stmt_if_parallel_sequences [OF a none blk none mb len(2),
      of "Terminal ''if''" "Iteration [] []" "[]" "[]" "Iteration [Terminal ''else''] ''else''"
        "'': { break; } ''" "''if a: { break; } else: { break; } ''"]
  show ?thesis
    by (auto simp: example_if_def example_if_else_def)
qed

text \<open>
  C6. The builder of \<^verbatim>\<open>numlit\<close> yields a \<open>NumericLiteral\<close> whose value is the
  number that the language's conversion gives for the entire matched text, whatever
  the six sub-matches are.
\<close>

theorem numlit_value_of_whole_text:
  "ast (astGenerator toNumber (Nonterminal ''numlit'' [c1, c2, c3, c4, c5, c6] text))
     = Inr (NumericLiteral (toNumber text))"
  by (simp add: lookup_numlit)

text \<open>
  C7. The builder of \<^verbatim>\<open>strlit\<close> yields a \<open>StringLiteral\<close> that stores the entire
  matched text unchanged; where that text is the opening delimiter, the characters and
  the closing delimiter in a row, the stored text begins and ends with the delimiters,
  and an escape sequence stays as it was written.
\<close>

theorem strlit_keeps_whole_text:
  "ast (astGenerator toNumber (Nonterminal ''strlit'' [opening, chars, closing] text))
     = Inr (StringLiteral text)
   \<and> (text = sourceString (astGenerator toNumber opening)
              @ sourceString (astGenerator toNumber chars)
              @ sourceString (astGenerator toNumber closing) \<longrightarrow>
        ast (astGenerator toNumber (Nonterminal ''strlit'' [opening, chars, closing] text))
          = Inr (StringLiteral (sourceString (astGenerator toNumber opening)
              @ sourceString (astGenerator toNumber chars)
              @ sourceString (astGenerator toNumber closing))))"
  by (simp add: lookup_strlit)

theorem strlit_keeps_whole_text_witness:
  "[CHR 0x22, CHR ''a'', CHR 0x5C, CHR ''n'', CHR 0x22]
     = sourceString (astGenerator (\<lambda>s. ()) (Terminal [CHR 0x22]))
       @ sourceString (astGenerator (\<lambda>s. ())
           (Iteration [Terminal ''a'', Terminal [CHR 0x5C, CHR ''n'']]
              [CHR ''a'', CHR 0x5C, CHR ''n'']))
       @ sourceString (astGenerator (\<lambda>s. ()) (Terminal [CHR 0x22]))
   \<and> ast (astGenerator (\<lambda>s. ()) example_strlit)
       = Inr (StringLiteral [CHR 0x22, CHR ''a'', CHR 0x5C, CHR ''n'', CHR 0x22])"
  using strlit_keeps_whole_text [of "\<lambda>s. ()" "Terminal [CHR 0x22]"
      "Iteration [Terminal ''a'', Terminal [CHR 0x5C, CHR ''n'']] [CHR ''a'', CHR 0x5C, CHR ''n'']"
      "Terminal [CHR 0x22]" "[CHR 0x22, CHR ''a'', CHR 0x5C, CHR ''n'', CHR 0x22]"]
  by (simp add: example_strlit_def)
text \<open>
  C8. The node that the loop rule builds is a \<open>FromStatement\<close> whose loop variable
  is the text of the matched identifier (the value the \<^verbatim>\<open>id\<close> rule builds for it),
  whose tests are the pair of the trees of the two matched test expressions, in source
  order, and whose increments and body are the built sequences, unchanged.
\<close>

theorem Stmt_loop_fields:
  assumes "ast (astGenerator toNumber firstTest) = Inr t1"
    and "ast (astGenerator toNumber secondTest) = Inr t2"
    and "ast (astGenerator toNumber increments) = Inr incs"
    and "ast (astGenerator toNumber block) = Inr body"
  shows "ast (astGenerator toNumber (Nonterminal ''Stmt_loop''
              [k1, ident, k2, firstTest, k3, secondTest, k4, increments, block] text))
           = Inr (FromStatement (Str (sourceString (astGenerator toNumber ident)))
                    (Arr [t1, t2]) incs body)
         \<and> (ident = Nonterminal ''id'' [c1, c2] name \<longrightarrow>
              ast (astGenerator toNumber ident)
                = Inr (Str (sourceString (astGenerator toNumber ident))))"
  using assms by (simp add: lookup_Stmt_loop lookup_id)


theorem Stmt_loop_fields_witness:
  "ast (astGenerator (\<lambda>s. ()) example_loop)
     = Inr (FromStatement (Str ''i'')
              (Arr [IdentifierExpression (Str ''a''), IdentifierExpression (Str ''b'')])
              (Arr []) (Arr [BreakStatement]))
   \<and> ast (astGenerator (\<lambda>s. ()) (example_id ''i'')) = Inr (Str ''i'')"
proof -
  let ?tn = "\<lambda>s::string. ()"
  have a: "ast (astGenerator ?tn (example_variable ''a'')) = Inr (IdentifierExpression (Str ''a''))"
    and b: "ast (astGenerator ?tn (example_variable ''b'')) = Inr (IdentifierExpression (Str ''b''))"
    by (rule example_variable_ast)+
  have incs: "ast (astGenerator ?tn (Iteration [] [])) = Inr (Arr [])"
    by simp
  have blk: "ast (astGenerator ?tn example_block) = Inr (Arr [BreakStatement])"
    by (rule example_block_ast)
  from Stmt_loop_fields [OF a b incs blk, of "Terminal ''from''" "example_id ''i''"
      "Terminal ''=''" "Terminal ''to''" "Terminal ''by''" "''from i = a to b by : { break; } ''"
      "Terminal ''i''" "Iteration [] []" "''i''"]
  show ?thesis by (simp add: example_loop_def example_id_def)
qed
text \<open>
  C9. The ternary rule reorders its sub-matches: the middle expression of the source
  form becomes the first field of the \<open>TernaryExpression\<close> (its test), the first
  expression the second field (ifTrue) and the last expression the third (ifFalse).
\<close>

theorem Stmt_ternary_reorders:
  assumes "ast (astGenerator toNumber trueTest) = Inr a"
    and "ast (astGenerator toNumber test) = Inr t"
    and "ast (astGenerator toNumber falseTest) = Inr b"
  shows "ast (astGenerator toNumber (Nonterminal ''Stmt_ternary'' [trueTest, k1, test, k2, falseTest] text))
           = Inr (TernaryExpression t a b)"
  using assms by (simp add: lookup_Stmt_ternary)

theorem Stmt_ternary_reorders_witness:
  "ast (astGenerator (\<lambda>s. ()) example_ternary)
     = Inr (TernaryExpression (BooleanLiteral True) (IdentifierExpression (Str ''x''))
              (IdentifierExpression (Str ''y'')))"
proof -
  let ?tn = "\<lambda>s::string. ()"
  have x: "ast (astGenerator ?tn (example_variable ''x'')) = Inr (IdentifierExpression (Str ''x''))"
    and y: "ast (astGenerator ?tn (example_variable ''y'')) = Inr (IdentifierExpression (Str ''y''))"
    by (rule example_variable_ast)+
  have t: "ast (astGenerator ?tn (example_boollit ''true'')) = Inr (BooleanLiteral True)"
    by (simp add: example_boollit_ast)
  from Stmt_ternary_reorders [OF x t y, of "Terminal ''if''" "Terminal ''else''"
      "''x if true else y''"]
  show ?thesis by (simp add: example_ternary_def)
qed
text \<open>
  C10. Analysing a break statement leaves the context it was given as it was, bindings,
  flags and enclosing scopes included, and a successful analysis returns no value
  (\<^verbatim>\<open>undefined\<close>); the thrown diagnostic is the only other outcome.
\<close>

theorem analyze_leaves_context:
  "snd (analyze context) = context
   \<and> (\<forall>v. fst (analyze context) = Inr v \<longrightarrow> v = Undefined)
   \<and> (fst (analyze context) = Inr Undefined
       \<or> fst (analyze context) = Inl (Error ''Break Statement out of Loop''))"
  by (simp add: analyze_def)

theorem analyze_leaves_context_witness:
  "fst (analyze example_context) = Inr Undefined
   \<and> snd (analyze example_context) = example_context
   \<and> declarations (snd (analyze example_context)) = [(''x'', NumType)]
   \<and> snd (analyze example_root_context) = example_root_context"
  using analyze_leaves_context [of example_context]
    analyze_leaves_context [of example_root_context]
  by (simp add: example_context_def example_root_context_def analyze_def)

end
